theory Spec2Isabelle
  imports Main "HOL-Library.AList"
begin

section \<open>Strings and paths as the program uses them\<close>

text \<open>
  JavaScript strings are modelled as \<^typ>\<open>string\<close>, one \<^typ>\<open>char\<close> per code unit.
  The helpers below are \<open>String.prototype.startsWith\<close>, \<open>endsWith\<close> and \<open>includes\<close>.
\<close>

fun startsWith :: "string \<Rightarrow> string \<Rightarrow> bool" where
  "startsWith s [] = True"
| "startsWith [] (p # ps) = False"
| "startsWith (c # cs) (p # ps) = (c = p \<and> startsWith cs ps)"

definition endsWith :: "string \<Rightarrow> string \<Rightarrow> bool" where
  "endsWith s p = startsWith (rev s) (rev p)"

fun includesStr :: "string \<Rightarrow> string \<Rightarrow> bool" where
  "includesStr [] p = (p = [])"
| "includesStr (c # cs) p = (startsWith (c # cs) p \<or> includesStr cs p)"

text \<open>
  \<open>path.join\<close> of two segments. Normalisation (\<open>..\<close>, doubled separators) is not
  modelled: every path the program builds here is a root followed by plain segments.
  \<open>path.dirname\<close> drops the last segment.
\<close>

definition pathJoin :: "string \<Rightarrow> string \<Rightarrow> string" where
  "pathJoin a b = a @ ''/'' @ b"

definition dirname :: "string \<Rightarrow> string" where
  "dirname p = rev (drop 1 (dropWhile (\<lambda>c. c \<noteq> CHR ''/'') (rev p)))"

text \<open>\<open>isUnder p q\<close>: the path \<open>q\<close> lies strictly below the directory \<open>p\<close>.\<close>

definition isUnder :: "string \<Rightarrow> string \<Rightarrow> bool" where
  "isUnder p q = startsWith q (p @ ''/'')"

definition atOrUnder :: "string \<Rightarrow> string \<Rightarrow> bool" where
  "atOrUnder p q = (q = p \<or> isUnder p q)"

section \<open>Project-name validation (validation.ts)\<close>

record ValidationResult =
  isValid :: bool
  error :: "string option"

text \<open>The character class \<open>[a-z0-9-]\<close> of the schema's regular expression.\<close>

definition nameChar :: "char \<Rightarrow> bool" where
  "nameChar c =
     (let n = (of_char c :: nat)
      in (97 \<le> n \<and> n \<le> 122) \<or> (48 \<le> n \<and> n \<le> 57) \<or> n = 45)"

text \<open>
  \<open>projectNameSchema\<close>: \<open>min(1)\<close>, \<open>max(50)\<close>, the regular expression
  \<open>^[a-z0-9-]+$\<close>, and the refinement that the name neither starts nor ends with a hyphen.
  \<open>parse\<close> throws when any of the four checks fails.
\<close>

definition projectNameSchema :: "string \<Rightarrow> bool" where
  "projectNameSchema name =
     (1 \<le> length name \<and> length name \<le> 50
      \<and> (name \<noteq> [] \<and> list_all nameChar name)
      \<and> (\<not> startsWith name ''-'' \<and> \<not> endsWith name ''-''))"

definition validateProjectName :: "string \<Rightarrow> ValidationResult" where
  "validateProjectName projectName =
     (if projectNameSchema projectName
      then \<lparr>isValid = True, error = None\<rparr>
      else \<lparr>isValid = False, error = Some ''Invalid project name''\<rparr>)"

section \<open>Configuration record (types/index.ts)\<close>

datatype ORM = prisma | typeorm | sequelize
datatype Database = postgres | mysql | sqlite | mongodb
datatype PackageManager = npm | yarn | pnpm

record TemplateData =
  projectName :: string
  orm :: ORM
  database :: Database
  packageManager :: PackageManager
  docker :: bool
  testing :: bool

text \<open>The string each enumeration value is at run time.\<close>

fun ormStr :: "ORM \<Rightarrow> string" where
  "ormStr prisma = ''prisma''"
| "ormStr typeorm = ''typeorm''"
| "ormStr sequelize = ''sequelize''"

fun databaseStr :: "Database \<Rightarrow> string" where
  "databaseStr postgres = ''postgres''"
| "databaseStr mysql = ''mysql''"
| "databaseStr sqlite = ''sqlite''"
| "databaseStr mongodb = ''mongodb''"

fun packageManagerStr :: "PackageManager \<Rightarrow> string" where
  "packageManagerStr npm = ''npm''"
| "packageManagerStr yarn = ''yarn''"
| "packageManagerStr pnpm = ''pnpm''"

section \<open>JSON values\<close>

text \<open>
  What \<open>JSON.parse\<close> returns. An object is its list of entries in insertion order; numbers
  are kept as integers, which is all the truthiness test of the manifest merge looks at.
\<close>

datatype json =
    JNull
  | JBool bool
  | JNum int
  | JStr string
  | JArr "json list"
  | JObj "(string \<times> json) list"

section \<open>Errors, the file system and the process state\<close>

text \<open>
  A thrown JavaScript error is a value: \<open>Error\<close> carries the message of an error the
  program itself constructs, \<open>FsError\<close> the code and path of a failed file-system call,
  \<open>SyntaxError\<close> and \<open>TypeError\<close> are the language's own.
\<close>

datatype error =
    Error string
  | FsError string string
  | SyntaxError string
  | TypeError string


datatype node = File string | Dir

record CachedTemplate =
  content :: string
  hash :: string
  timestamp :: nat
  templatePath :: string
  dataHash :: string

record RollbackInfo =
  projectPath :: string
  createdFiles :: "string list"
  createdDirs :: "string list"
  timestamp :: nat

text \<open>The lines the rollback prints, as values.\<close>

datatype logline =
    LogError string
  | PerformingRollback
  | RemovedFile string
  | RemovedDirectory string
  | RemovedEmptyProjectDirectory string
  | RollbackFailed string
  | RollbackCompleted

text \<open>
  The state the program runs in: the file system (an association list from paths to nodes,
  in listing order), the paths on which a call of \<open>fs.remove\<close> raises, the in-memory map of
  the template cache, the rollback stack of the error handler, the clock and the console.
\<close>

record world =
  files :: "(string \<times> node) list"
  removeFails :: "string list"
  cache :: "string \<rightharpoonup> CachedTemplate"
  rollbackStack :: "RollbackInfo list"
  now :: nat
  console :: "logline list"

text \<open>
  A template directory as the recursive copy reads it with \<open>readdir\<close>, \<open>stat\<close> and
  \<open>readFile\<close>: the entries in listing order, each a file with its content or a directory
  with its entries.
\<close>

datatype tnode = TFile string | TDir "(string \<times> tnode) list"

text \<open>
  What the program takes from outside: the working directory, the template directory of
  the installed package, the library functions it calls (\<open>sha256\<close> hex digest,
  \<open>ejs.render\<close>, \<open>JSON.parse\<close>, \<open>JSON.stringify\<close> with an indentation, and the reading
  and writing of a cache entry as JSON text), and \<open>templateTree\<close>, the content of a
  template directory given by its path. The template directories are only read during a
  run, and the target of a copy is taken to lie outside them.
\<close>

record env =
  cwd :: string
  templateBasePath :: string
  sha256 :: "string \<Rightarrow> string"
  ejsRender :: "string \<Rightarrow> TemplateData \<Rightarrow> error + string"
  jsonParse :: "string \<Rightarrow> error + json"
  jsonStringify :: "nat \<Rightarrow> json \<Rightarrow> string"
  parseCachedTemplate :: "string \<Rightarrow> error + CachedTemplate"
  printCachedTemplate :: "CachedTemplate \<Rightarrow> string"
  templateTree :: "string \<Rightarrow> (string \<times> tnode) list"

subsection \<open>The calls of fs-extra\<close>

definition pathExists :: "world \<Rightarrow> string \<Rightarrow> bool" where
  "pathExists w p = (map_of (files w) p \<noteq> None)"

definition readFile :: "world \<Rightarrow> string \<Rightarrow> error + string" where
  "readFile w p =
     (case map_of (files w) p of
        None \<Rightarrow> Inl (FsError ''ENOENT'' p)
      | Some Dir \<Rightarrow> Inl (FsError ''EISDIR'' p)
      | Some (File c) \<Rightarrow> Inr c)"

text \<open>
  \<open>writeFile\<close> replaces or creates the file; it raises on a directory. Whether the parent
  directory exists is not looked at.
\<close>

definition writeFile :: "string \<Rightarrow> string \<Rightarrow> world \<Rightarrow> error + world" where
  "writeFile p c w =
     (case map_of (files w) p of
        Some Dir \<Rightarrow> Inl (FsError ''EISDIR'' p)
      | _ \<Rightarrow> Inr (w\<lparr>files := AList.update p (File c) (files w)\<rparr>))"

text \<open>
  \<open>remove\<close> deletes the path and everything below it, and succeeds on a path that does not
  exist. It raises, and changes nothing, on the paths of \<open>removeFails\<close>.
\<close>

definition remove :: "string \<Rightarrow> world \<Rightarrow> error + world" where
  "remove p w =
     (if p \<in> set (removeFails w) then Inl (FsError ''EPERM'' p)
      else Inr (w\<lparr>files := filter (\<lambda>(q, n). \<not> atOrUnder p q) (files w)\<rparr>))"


text \<open>\<open>copy\<close> of a regular file whose content is \<open>c\<close>: the target becomes that file.\<close>

definition copyFile :: "string \<Rightarrow> string \<Rightarrow> world \<Rightarrow> error + world" where
  "copyFile c target w =
     (case map_of (files w) target of
        Some Dir \<Rightarrow> Inl (FsError ''EISDIR'' target)
      | _ \<Rightarrow> Inr (w\<lparr>files := AList.update target (File c) (files w)\<rparr>))"

text \<open>
  \<open>ensureDir\<close> creates the directory if nothing is there, and raises when a file is.
  Missing ancestors are not created in the model.
\<close>

definition ensureDir :: "string \<Rightarrow> world \<Rightarrow> error + world" where
  "ensureDir p w =
     (case map_of (files w) p of
        Some (File c) \<Rightarrow> Inl (FsError ''EEXIST'' p)
      | Some Dir \<Rightarrow> Inr w
      | None \<Rightarrow> Inr (w\<lparr>files := AList.update p Dir (files w)\<rparr>))"

section \<open>The template cache (template-cache.ts)\<close>

definition cacheDir :: "env \<Rightarrow> string" where
  "cacheDir E = pathJoin (cwd E) ''.nestkick-cache''"

definition generateHash :: "env \<Rightarrow> string \<Rightarrow> string" where
  "generateHash E c = sha256 E c"

text \<open>
  \<open>generateDataHash\<close> serialises the record with its keys sorted and hashes the text.
\<close>

definition dataString :: "env \<Rightarrow> TemplateData \<Rightarrow> string" where
  "dataString E d =
     jsonStringify E 0
       (JObj [(''database'', JStr (databaseStr (database d))),
              (''docker'', JBool (docker d)),
              (''orm'', JStr (ormStr (orm d))),
              (''packageManager'', JStr (packageManagerStr (packageManager d))),
              (''projectName'', JStr (projectName d)),
              (''testing'', JBool (testing d))])"

definition generateDataHash :: "env \<Rightarrow> TemplateData \<Rightarrow> string" where
  "generateDataHash E d = sha256 E (dataString E d)"

text \<open>The replacement of every slash, backslash and colon by an underscore.\<close>

definition safeChar :: "char \<Rightarrow> char" where
  "safeChar c =
     (if c = CHR ''/'' \<or> c = CHR 0x5C \<or> c = CHR '':'' then CHR ''_'' else c)"

definition getCacheKey :: "env \<Rightarrow> string \<Rightarrow> TemplateData \<Rightarrow> string" where
  "getCacheKey E tp d = map safeChar tp @ ''_'' @ generateDataHash E d"

definition cacheFilePath :: "env \<Rightarrow> string \<Rightarrow> string" where
  "cacheFilePath E cacheKey = pathJoin (cacheDir E) (cacheKey @ ''.json'')"

text \<open>The file whose bytes the cache hashes: \<open>cwd/templates/templatePath\<close>.\<close>

definition templateFilePath :: "env \<Rightarrow> string \<Rightarrow> string" where
  "templateFilePath E tp = pathJoin (pathJoin (cwd E) ''templates'') tp"

text \<open>
  \<open>fs.readJson\<close> of a cache file: the file is read and parsed. A file that parses is
  taken to hold a cache entry, as the cast in the source does.
\<close>

definition readJsonCached :: "env \<Rightarrow> world \<Rightarrow> string \<Rightarrow> error + CachedTemplate" where
  "readJsonCached E w p =
     (case readFile w p of
        Inl e \<Rightarrow> Inl e
      | Inr text \<Rightarrow> parseCachedTemplate E text)"

text \<open>\<open>fs.remove(p).catch(() => {})\<close>: a failure of the removal is dropped.\<close>

definition removeQuiet :: "string \<Rightarrow> world \<Rightarrow> world" where
  "removeQuiet p w = (case remove p w of Inl e \<Rightarrow> w | Inr w' \<Rightarrow> w')"

text \<open>
  \<open>getCachedTemplate\<close>. An entry of the in-memory map is returned as it is. A cache file
  is returned, and taken into the map, when the template file exists and its hash is the
  stored one; whatever raises inside the \<open>try\<close> removes the cache file. The result is the
  content or \<open>None\<close> for \<open>null\<close>.
\<close>

definition getCachedTemplate ::
  "env \<Rightarrow> string \<Rightarrow> TemplateData \<Rightarrow> world \<Rightarrow> world \<times> string option" where
  "getCachedTemplate E tp d w =
     (let cacheKey = getCacheKey E tp d in
      case cache w cacheKey of
        Some cached \<Rightarrow> (w, Some (content cached))
      | None \<Rightarrow>
          (let cfp = cacheFilePath E cacheKey in
           if pathExists w cfp then
             (case readJsonCached E w cfp of
                Inl e \<Rightarrow> (removeQuiet cfp w, None)
              | Inr cachedData \<Rightarrow>
                  (let tfp = templateFilePath E tp in
                   if pathExists w tfp then
                     (case readFile w tfp of
                        Inl e \<Rightarrow> (removeQuiet cfp w, None)
                      | Inr templateContent \<Rightarrow>
                          if hash cachedData = generateHash E templateContent
                          then (w\<lparr>cache := (cache w)(cacheKey \<mapsto> cachedData)\<rparr>,
                                Some (content cachedData))
                          else (w, None))
                   else (w, None)))
           else (w, None)))"

text \<open>
  \<open>setCachedTemplate\<close> stores nothing when the template file does not exist. Otherwise
  it hashes the template, stores the entry in the map and writes it to the cache file;
  a read or write that raises is not caught.
\<close>

definition setCachedTemplate ::
  "env \<Rightarrow> string \<Rightarrow> TemplateData \<Rightarrow> string \<Rightarrow> world \<Rightarrow> world \<times> (error + unit)" where
  "setCachedTemplate E tp d c w =
     (let cacheKey = getCacheKey E tp d;
          tfp = templateFilePath E tp in
      if pathExists w tfp then
        (case readFile w tfp of
           Inl e \<Rightarrow> (w, Inl e)
         | Inr templateContent \<Rightarrow>
             (let cachedTemplate =
                    \<lparr>content = c,
                     hash = generateHash E templateContent,
                     timestamp = now w,
                     templatePath = tp,
                     dataHash = generateDataHash E d\<rparr>;
                  w1 = w\<lparr>cache := (cache w)(cacheKey \<mapsto> cachedTemplate)\<rparr>
              in case writeFile (cacheFilePath E cacheKey)
                        (printCachedTemplate E cachedTemplate) w1 of
                   Inl e \<Rightarrow> (w1, Inl e)
                 | Inr w2 \<Rightarrow> (w2, Inr ())))
      else (w, Inr ()))"

section \<open>Rendering a template (template-manager.ts)\<close>

text \<open>
  The part of \<open>renderTemplate\<close> after the cache was consulted without a usable
  result: read the raw template, render it, store the result, return it.
\<close>

definition renderFresh ::
  "env \<Rightarrow> string \<Rightarrow> TemplateData \<Rightarrow> world \<Rightarrow> world \<times> (error + string)" where
  "renderFresh E tp d w =
     (case readFile w (pathJoin (templateBasePath E) tp) of
        Inl e \<Rightarrow> (w, Inl e)
      | Inr template \<Rightarrow>
          (case ejsRender E template d of
             Inl e \<Rightarrow> (w, Inl e)
           | Inr renderedContent \<Rightarrow>
               (case setCachedTemplate E tp d renderedContent w of
                  (w2, Inl e) \<Rightarrow> (w2, Inl e)
                | (w2, Inr u) \<Rightarrow> (w2, Inr renderedContent))))"

text \<open>
  \<open>renderTemplate\<close>. The test \<open>if (cachedContent)\<close> is JavaScript truthiness: \<open>null\<close> and
  the empty string both fall through to rendering.
\<close>

definition renderTemplate ::
  "env \<Rightarrow> string \<Rightarrow> TemplateData \<Rightarrow> world \<Rightarrow> world \<times> (error + string)" where
  "renderTemplate E tp d w =
     (if \<not> pathExists w (pathJoin (templateBasePath E) tp)
      then (w, Inl (Error (''Template not found: '' @ tp)))
      else
        (case getCachedTemplate E tp d w of
           (w1, None) \<Rightarrow> renderFresh E tp d w1
         | (w1, Some []) \<Rightarrow> renderFresh E tp d w1
         | (w1, Some (c # cs)) \<Rightarrow> (w1, Inr (c # cs))))"

section \<open>The error handler and its rollback stack (error-handler.ts)\<close>


definition addRollbackPoint :: "string \<Rightarrow> world \<Rightarrow> world" where
  "addRollbackPoint p w =
     w\<lparr>rollbackStack := rollbackStack w @
          [\<lparr>projectPath = p, createdFiles = [], createdDirs = [], timestamp = now w\<rparr>]\<rparr>"

text \<open>Both tracking calls append to the most recent entry and do nothing on an empty stack.\<close>

definition trackCreatedFile :: "string \<Rightarrow> world \<Rightarrow> world" where
  "trackCreatedFile filePath w =
     (case rev (rollbackStack w) of
        [] \<Rightarrow> w
      | currentRollback # older \<Rightarrow>
          w\<lparr>rollbackStack := rev older @
               [currentRollback\<lparr>createdFiles := createdFiles currentRollback @ [filePath]\<rparr>]\<rparr>)"

definition trackCreatedDir :: "string \<Rightarrow> world \<Rightarrow> world" where
  "trackCreatedDir dirPath w =
     (case rev (rollbackStack w) of
        [] \<Rightarrow> w
      | currentRollback # older \<Rightarrow>
          w\<lparr>rollbackStack := rev older @
               [currentRollback\<lparr>createdDirs := createdDirs currentRollback @ [dirPath]\<rparr>]\<rparr>)"













section \<open>Copying a template tree (template-manager.ts)\<close>

definition databaseFiles :: "string list" where
  "databaseFiles =
     [''docker-compose.postgres.yml.ejs'',
      ''docker-compose.mysql.yml.ejs'',
      ''docker-compose.mongodb.yml.ejs'',
      ''docker-compose.sqlite.yml.ejs'']"

text \<open>
  \<open>shouldSkipFile\<close>: below a source path that contains \<open>base\<close>, a database-specific
  compose file other than the one of the selected database is skipped.
\<close>

definition shouldSkipFile :: "string \<Rightarrow> string \<Rightarrow> TemplateData \<Rightarrow> bool" where
  "shouldSkipFile filename sourcePath d =
     (if includesStr sourcePath ''base'' \<and> startsWith filename ''docker-compose.'' then
        (let selectedDbFile = ''docker-compose.'' @ databaseStr (database d) @ ''.yml.ejs''
         in if filename \<in> set databaseFiles \<and> filename \<noteq> selectedDbFile then True else False)
      else False)"

text \<open>The replacement of a final \<open>.ejs\<close> by nothing.\<close>

definition stripEjs :: "string \<Rightarrow> string" where
  "stripEjs p = (if endsWith p ''.ejs'' then take (length p - 4) p else p)"

text \<open>
  \<open>copyDirectoryRecursive\<close> over the entries of the source directory, in listing order.
  A skipped entry is passed over before anything else is done with it; the \<open>docker\<close>
  directory below \<open>base\<close> is passed over as well. A directory is created, tracked and
  copied; a template is rendered, written without its suffix and tracked; any other file
  is copied and tracked. The first call that raises ends the copy.
\<close>

fun copyDirectoryRecursive ::
  "env \<Rightarrow> string \<Rightarrow> (string \<times> tnode) list \<Rightarrow> string \<Rightarrow> TemplateData \<Rightarrow> world
     \<Rightarrow> world \<times> (error + unit)" where
  "copyDirectoryRecursive E sourcePath [] targetPath d w = (w, Inr ())"
| "copyDirectoryRecursive E sourcePath ((item, TDir children) # items) targetPath d w =
     (if shouldSkipFile item sourcePath d
      then copyDirectoryRecursive E sourcePath items targetPath d w
      else if item = ''docker'' \<and> includesStr sourcePath ''base''
      then copyDirectoryRecursive E sourcePath items targetPath d w
      else
        (case ensureDir (pathJoin targetPath item) w of
           Inl e \<Rightarrow> (w, Inl e)
         | Inr w1 \<Rightarrow>
             (case copyDirectoryRecursive E (pathJoin sourcePath item) children
                     (pathJoin targetPath item) d
                     (trackCreatedDir (pathJoin targetPath item) w1) of
                (w2, Inl e) \<Rightarrow> (w2, Inl e)
              | (w2, Inr u) \<Rightarrow> copyDirectoryRecursive E sourcePath items targetPath d w2)))"
| "copyDirectoryRecursive E sourcePath ((item, TFile templateContent) # items) targetPath d w =
     (if shouldSkipFile item sourcePath d
      then copyDirectoryRecursive E sourcePath items targetPath d w
      else if endsWith item ''.ejs'' then
        (case ejsRender E templateContent d of
           Inl e \<Rightarrow> (w, Inl e)
         | Inr renderedContent \<Rightarrow>
             (let targetFilePath = stripEjs (pathJoin targetPath item) in
              case ensureDir (dirname targetFilePath) w of
                Inl e \<Rightarrow> (w, Inl e)
              | Inr w1 \<Rightarrow>
                  (case writeFile targetFilePath renderedContent w1 of
                     Inl e \<Rightarrow> (w1, Inl e)
                   | Inr w2 \<Rightarrow>
                       copyDirectoryRecursive E sourcePath items targetPath d
                         (trackCreatedFile targetFilePath w2))))
      else
        (case copyFile templateContent (pathJoin targetPath item) w of
           Inl e \<Rightarrow> (w, Inl e)
         | Inr w1 \<Rightarrow>
             copyDirectoryRecursive E sourcePath items targetPath d
               (trackCreatedFile (pathJoin targetPath item) w1)))"

definition copyDirectory ::
  "env \<Rightarrow> string \<Rightarrow> string \<Rightarrow> TemplateData \<Rightarrow> world \<Rightarrow> world \<times> (error + unit)" where
  "copyDirectory E sourceDir targetDir d w =
     (let sourcePath = pathJoin (templateBasePath E) sourceDir in
      if \<not> pathExists w sourcePath
      then (w, Inl (Error (''Template directory not found: '' @ sourceDir)))
      else copyDirectoryRecursive E sourcePath (templateTree E sourcePath) targetDir d w)"


text \<open>
  The source tree without the entries the skip predicate excludes, at every level: what
  the copy would read if those files were not there.
\<close>

fun withoutSkipped :: "string \<Rightarrow> TemplateData \<Rightarrow> (string \<times> tnode) list \<Rightarrow> (string \<times> tnode) list" where
  "withoutSkipped sourcePath d [] = []"
| "withoutSkipped sourcePath d ((item, TDir children) # items) =
     (if shouldSkipFile item sourcePath d then withoutSkipped sourcePath d items
      else (item, TDir (withoutSkipped (pathJoin sourcePath item) d children))
             # withoutSkipped sourcePath d items)"
| "withoutSkipped sourcePath d ((item, TFile c) # items) =
     (if shouldSkipFile item sourcePath d then withoutSkipped sourcePath d items
      else (item, TFile c) # withoutSkipped sourcePath d items)"

section \<open>Merging the package manifest (template-manager.ts)\<close>
















section \<open>Generating the project (template-manager.ts, progress-indicator.ts)\<close>















text \<open>
  A step of the progress indicator. \<open>runStep\<close> runs the action and passes its error on
  (the spinner is console output only); \<open>runSteps\<close> runs the steps in order and ends at
  the first error.
\<close>

record ProgressStep =
  name :: string
  action :: "world \<Rightarrow> world \<times> (error + unit)"
  successMessage :: string






section \<open>Concrete inputs\<close>

text \<open>
  A configuration, two environments and small worlds on which the theorems below are
  evaluated. In \<open>exEnv\<close> the package's template directory is \<open>cwd/templates\<close>, so the renderer
  and the cache look at the same template file; in \<open>pkgEnv\<close> the package is installed
  elsewhere. The digest is the identity and the renderer appends the project name.
\<close>

definition exData :: TemplateData where
  "exData = \<lparr>projectName = ''sample-api'', orm = prisma, database = postgres,
              packageManager = npm, docker = True, testing = True\<rparr>"

definition exEnv :: env where
  "exEnv = \<lparr>cwd = ''/w'', templateBasePath = ''/w/templates'',
             sha256 = (\<lambda>s. s),
             ejsRender = (\<lambda>t d. Inr (t @ projectName d)),
             jsonParse = (\<lambda>s. Inl (SyntaxError s)),
             jsonStringify = (\<lambda>n j. ''D''),
             parseCachedTemplate = (\<lambda>s. Inl (SyntaxError s)),
             printCachedTemplate = content,
             templateTree = (\<lambda>p. [])\<rparr>"

definition pkgEnv :: env where
  "pkgEnv = exEnv\<lparr>cwd := ''/home/u'', templateBasePath := ''/pkg/dist/templates''\<rparr>"

definition exWorld :: world where
  "exWorld = \<lparr>files = [(''/w/templates/base/t.ejs'', File ''hello '')],
               removeFails = [], cache = Map.empty, rollbackStack = [],
               now = 0, console = []\<rparr>"

definition pkgWorld :: world where
  "pkgWorld = exWorld\<lparr>files := [(''/pkg/dist/templates/base/t.ejs'', File ''hello '')]\<rparr>"

text \<open>The world after one render of \<open>base/t.ejs\<close>, and that world with the template rewritten.\<close>

definition exWorldRendered :: world where
  "exWorldRendered = fst (renderTemplate exEnv ''base/t.ejs'' exData exWorld)"

definition exWorldMutated :: world where
  "exWorldMutated =
     exWorldRendered\<lparr>files := AList.update ''/w/templates/base/t.ejs'' (File ''bye '')
                                 (files exWorldRendered)\<rparr>"









text \<open>
  A small \<open>base\<close> template directory with the compose files of two databases, and an empty
  target with an open checkpoint for the project \<open>/out\<close>.
\<close>

definition exTree :: "(string \<times> tnode) list" where
  "exTree =
     [(''docker-compose.mysql.yml.ejs'', TFile ''mysql for ''),
      (''docker-compose.postgres.yml.ejs'', TFile ''postgres for ''),
      (''src'', TDir [(''main.ts.ejs'', TFile ''main of '')]),
      (''LICENSE'', TFile ''MIT'')]"

definition outWorld :: world where
  "outWorld = addRollbackPoint ''/out''
     \<lparr>files = [], removeFails = [], cache = Map.empty, rollbackStack = [],
      now = 0, console = []\<rparr>"









section \<open>Properties of project-name validation\<close>

text \<open>
  C10. validateProjectName rejects every name longer than 50 characters, whatever else holds
  of it: also a name that is non-empty, made of lowercase letters, digits and hyphens only,
  and neither starts nor ends with a hyphen.
\<close>

theorem validateProjectName_rejects_long:
  "50 < length s \<Longrightarrow>
     validateProjectName s = \<lparr>isValid = False, error = Some ''Invalid project name''\<rparr>"
  by (simp add: validateProjectName_def projectNameSchema_def)

theorem validateProjectName_rejects_long_witness:
  "50 < length (replicate 51 CHR ''a'')
   \<and> list_all nameChar (replicate 51 CHR ''a'')
   \<and> \<not> startsWith (replicate 51 CHR ''a'') ''-''
   \<and> \<not> endsWith (replicate 51 CHR ''a'') ''-''
   \<and> \<not> isValid (validateProjectName (replicate 51 CHR ''a''))
   \<and> isValid (validateProjectName (replicate 50 CHR ''a''))"
proof -
  have long: "50 < length (replicate 51 CHR ''a'')" by simp
  have cls: "nameChar CHR ''a''" by (simp add: nameChar_def)
  have r51: "replicate 51 CHR ''a'' = CHR ''a'' # replicate 50 CHR ''a''"
    by (simp add: numeral_eq_Suc)
  have r50: "replicate 50 CHR ''a'' = CHR ''a'' # replicate 49 CHR ''a''"
    by (simp add: numeral_eq_Suc)
  have s51: "\<not> startsWith (replicate 51 CHR ''a'') ''-''" by (simp add: r51)
  have s50: "\<not> startsWith (replicate 50 CHR ''a'') ''-''" by (simp add: r50)
  have e51: "\<not> endsWith (replicate 51 CHR ''a'') ''-''"
    using s51 by (simp add: endsWith_def)
  have e50: "\<not> endsWith (replicate 50 CHR ''a'') ''-''"
    using s50 by (simp add: endsWith_def)
  have all51: "list_all nameChar (replicate 51 CHR ''a'')"
    by (simp add: list_all_iff cls)
  have all50: "list_all nameChar (replicate 50 CHR ''a'')"
    by (simp add: list_all_iff cls)
  have ok50: "isValid (validateProjectName (replicate 50 CHR ''a''))"
    using s50 e50 all50 by (simp add: validateProjectName_def projectNameSchema_def)
  from validateProjectName_rejects_long [OF long] long all51 s51 e51 ok50
  show ?thesis by simp
qed

section \<open>Properties of the template cache and the renderer\<close>

lemmas cache_defs = getCachedTemplate_def setCachedTemplate_def renderTemplate_def renderFresh_def
  getCacheKey_def cacheFilePath_def templateFilePath_def cacheDir_def generateHash_def
  generateDataHash_def dataString_def safeChar_def readJsonCached_def removeQuiet_def
  pathExists_def readFile_def writeFile_def remove_def pathJoin_def Let_def

lemmas example_defs = exEnv_def pkgEnv_def exData_def exWorld_def pkgWorld_def

lemma getCachedTemplate_memory:
  "cache w (getCacheKey E tp d) = Some e \<Longrightarrow> getCachedTemplate E tp d w = (w, Some (content e))"
  by (simp add: getCachedTemplate_def)


lemma getCachedTemplate_disk_validated:
  assumes "cache w (getCacheKey E tp d) = None"
      and "getCachedTemplate E tp d w = (w', Some c)"
  shows "\<exists>e t. readJsonCached E w (cacheFilePath E (getCacheKey E tp d)) = Inr e
           \<and> readFile w (templateFilePath E tp) = Inr t
           \<and> hash e = generateHash E t \<and> content e = c"
  using assms
  by (auto simp: getCachedTemplate_def Let_def split: option.splits sum.splits if_splits)






lemma readFile_pathExists: "readFile w p = Inr c \<Longrightarrow> pathExists w p"
  by (auto simp: readFile_def pathExists_def split: option.splits node.splits)


lemma setCachedTemplate_stores:
  assumes "readFile w (templateFilePath E tp) = Inr t"
      and "map_of (files w) (cacheFilePath E (getCacheKey E tp d)) \<noteq> Some Dir"
  shows "setCachedTemplate E tp d c w =
           (w\<lparr>cache := (cache w)(getCacheKey E tp d \<mapsto>
                   \<lparr>content = c, hash = generateHash E t, timestamp = now w,
                    templatePath = tp, dataHash = generateDataHash E d\<rparr>),
               files := AList.update (cacheFilePath E (getCacheKey E tp d))
                   (File (printCachedTemplate E
                      \<lparr>content = c, hash = generateHash E t, timestamp = now w,
                       templatePath = tp, dataHash = generateDataHash E d\<rparr>)) (files w)\<rparr>,
            Inr ())"
  using assms readFile_pathExists [OF assms(1)]
  by (auto simp: setCachedTemplate_def Let_def writeFile_def split: option.splits node.splits)










lemma exWorldRendered_eq:
  "exWorldRendered =
     exWorld\<lparr>cache := [''base_t.ejs_D'' \<mapsto>
                  \<lparr>content = ''hello sample-api'', hash = ''hello '', timestamp = 0,
                   templatePath = ''base/t.ejs'', dataHash = ''D''\<rparr>],
             files := [(''/w/templates/base/t.ejs'', File ''hello ''),
                       (''/w/.nestkick-cache/base_t.ejs_D.json'', File ''hello sample-api'')]\<rparr>"
  by (simp add: exWorldRendered_def cache_defs example_defs)







text \<open>
  C9. The cache key is not injective in the template path: two paths that differ only in
  a slash, backslash or colon against an underscore have the same key under the same
  configuration, and such paths exist. An entry stored by \<open>setCachedTemplate\<close> for one of
  them is what \<open>getCachedTemplate\<close> returns for the other.
\<close>

theorem getCacheKey_not_injective:
  "(\<exists>p q. p \<noteq> q \<and> getCacheKey E p d = getCacheKey E q d)
   \<and> (map safeChar tp = map safeChar tp'
        \<and> readFile w (templateFilePath E tp) = Inr t
        \<and> map_of (files w) (cacheFilePath E (getCacheKey E tp d)) \<noteq> Some Dir
      \<longrightarrow> getCacheKey E tp d = getCacheKey E tp' d
          \<and> (\<exists>w1. setCachedTemplate E tp d c w = (w1, Inr ())
                \<and> getCachedTemplate E tp' d w1 = (w1, Some c)))"
proof -
  have "''a/b'' \<noteq> ''a_b'' \<and> getCacheKey E ''a/b'' d = getCacheKey E ''a_b'' d"
    by (simp add: getCacheKey_def safeChar_def)
  then have exists: "\<exists>p q. p \<noteq> q \<and> getCacheKey E p d = getCacheKey E q d"
    by (intro exI)
  have served: "map safeChar tp = map safeChar tp'
        \<and> readFile w (templateFilePath E tp) = Inr t
        \<and> map_of (files w) (cacheFilePath E (getCacheKey E tp d)) \<noteq> Some Dir
      \<longrightarrow> getCacheKey E tp d = getCacheKey E tp' d
          \<and> (\<exists>w1. setCachedTemplate E tp d c w = (w1, Inr ())
                \<and> getCachedTemplate E tp' d w1 = (w1, Some c))"
  proof (rule impI)
    assume a: "map safeChar tp = map safeChar tp'
        \<and> readFile w (templateFilePath E tp) = Inr t
        \<and> map_of (files w) (cacheFilePath E (getCacheKey E tp d)) \<noteq> Some Dir"
    from a have m: "map safeChar tp = map safeChar tp'" by (rule conjunct1)
    from a have rt: "readFile w (templateFilePath E tp) = Inr t"
      by (rule conjunct1 [OF conjunct2])
    from a have nd: "map_of (files w) (cacheFilePath E (getCacheKey E tp d)) \<noteq> Some Dir"
      by (rule conjunct2 [OF conjunct2])
    have key: "getCacheKey E tp d = getCacheKey E tp' d"
      unfolding getCacheKey_def m ..
    let ?e = "\<lparr>content = c, hash = generateHash E t, timestamp = now w,
               templatePath = tp, dataHash = generateDataHash E d\<rparr>"
    let ?w1 = "fst (setCachedTemplate E tp d c w)"
    have st: "setCachedTemplate E tp d c w = (?w1, Inr ())"
      by (simp add: setCachedTemplate_stores [OF rt nd])
    have w1: "cache ?w1 (getCacheKey E tp d) = Some ?e"
      by (simp add: setCachedTemplate_stores [OF rt nd])
    from w1 have "cache ?w1 (getCacheKey E tp' d) = Some ?e" unfolding key .
    from getCachedTemplate_memory [OF this]
    have "getCachedTemplate E tp' d ?w1 = (?w1, Some c)" by simp
    with st have "\<exists>w1. setCachedTemplate E tp d c w = (w1, Inr ())
                  \<and> getCachedTemplate E tp' d w1 = (w1, Some c)"
      by (intro exI conjI)
    with key
    show "getCacheKey E tp d = getCacheKey E tp' d
            \<and> (\<exists>w1. setCachedTemplate E tp d c w = (w1, Inr ())
                  \<and> getCachedTemplate E tp' d w1 = (w1, Some c))" by (rule conjI)
  qed
  from exists served show ?thesis by (rule conjI)
qed

theorem getCacheKey_not_injective_witness:
  "''base/t.ejs'' \<noteq> ''base_t.ejs''
   \<and> map safeChar ''base/t.ejs'' = map safeChar ''base_t.ejs''
   \<and> readFile exWorld (templateFilePath exEnv ''base/t.ejs'') = Inr ''hello ''
   \<and> map_of (files exWorld) (cacheFilePath exEnv (getCacheKey exEnv ''base/t.ejs'' exData))
       \<noteq> Some Dir
   \<and> getCacheKey exEnv ''base/t.ejs'' exData = getCacheKey exEnv ''base_t.ejs'' exData
   \<and> (\<exists>w1. setCachedTemplate exEnv ''base/t.ejs'' exData ''first'' exWorld = (w1, Inr ())
         \<and> getCachedTemplate exEnv ''base_t.ejs'' exData w1 = (w1, Some ''first''))"
proof -
  have m: "map safeChar ''base/t.ejs'' = map safeChar ''base_t.ejs''"
    by (simp add: safeChar_def)
  have rt: "readFile exWorld (templateFilePath exEnv ''base/t.ejs'') = Inr ''hello ''"
    by (simp add: cache_defs example_defs)
  have nd: "map_of (files exWorld) (cacheFilePath exEnv (getCacheKey exEnv ''base/t.ejs'' exData))
       \<noteq> Some Dir"
    by (simp add: cache_defs example_defs)
  have ne: "''base/t.ejs'' \<noteq> ''base_t.ejs''" by simp
  from m rt nd have prem: "map safeChar ''base/t.ejs'' = map safeChar ''base_t.ejs''
   \<and> readFile exWorld (templateFilePath exEnv ''base/t.ejs'') = Inr ''hello ''
   \<and> map_of (files exWorld) (cacheFilePath exEnv (getCacheKey exEnv ''base/t.ejs'' exData))
       \<noteq> Some Dir"
    by (intro conjI)
  note served = conjunct2 [OF getCacheKey_not_injective
         [of exEnv exData "''base/t.ejs''" "''base_t.ejs''" exWorld "''hello ''" "''first''"]]
  from mp [OF served prem] ne prem show ?thesis by (intro conjI) (elim conjE, assumption)+
qed

text \<open>
  C1 at a concrete input. After one render of \<open>base/t.ejs\<close> the template is rewritten from
  \<open>hello\<close> to \<open>bye\<close>. The in-memory entry still carries the hash of the old bytes, which
  is not the hash of the current ones; \<open>getCachedTemplate\<close> returns its content all the
  same, and the second render returns the old text where rendering the current bytes
  gives another.
\<close>

theorem getCachedTemplate_memory_unvalidated:
  "renderTemplate exEnv ''base/t.ejs'' exData exWorld
     = (exWorldRendered, Inr ''hello sample-api'')
   \<and> readFile exWorldMutated (templateFilePath exEnv ''base/t.ejs'') = Inr ''bye ''
   \<and> readFile exWorldMutated (pathJoin (templateBasePath exEnv) ''base/t.ejs'') = Inr ''bye ''
   \<and> cache exWorldMutated (getCacheKey exEnv ''base/t.ejs'' exData)
       = Some \<lparr>content = ''hello sample-api'', hash = ''hello '', timestamp = 0,
               templatePath = ''base/t.ejs'', dataHash = ''D''\<rparr>
   \<and> generateHash exEnv ''bye '' \<noteq> ''hello ''
   \<and> getCachedTemplate exEnv ''base/t.ejs'' exData exWorldMutated
       = (exWorldMutated, Some ''hello sample-api'')
   \<and> renderTemplate exEnv ''base/t.ejs'' exData exWorldMutated
       = (exWorldMutated, Inr ''hello sample-api'')
   \<and> ejsRender exEnv ''bye '' exData = Inr ''bye sample-api''"
  unfolding exWorldMutated_def exWorldRendered_eq
  by (simp add: cache_defs example_defs)

section \<open>Properties of the rollback\<close>
































section \<open>Properties of the tree copy\<close>

lemma shouldSkipFile_other_database:
  assumes "includesStr sp ''base''" and "db \<noteq> database d"
  shows "shouldSkipFile (''docker-compose.'' @ databaseStr db @ ''.yml.ejs'') sp d"
  using assms
  by (cases db; cases "database d") (simp_all add: shouldSkipFile_def databaseFiles_def)

lemma copy_skips:
  "copyDirectoryRecursive E sourcePath (withoutSkipped sourcePath d items) targetPath d w
     = copyDirectoryRecursive E sourcePath items targetPath d w"
proof (induction E sourcePath items targetPath d w rule: copyDirectoryRecursive.induct)
  case (1 E sourcePath targetPath d w)
  then show ?case by simp
next
  case (2 E sourcePath item children items targetPath d w)
  then show ?case
    by (auto split: sum.splits prod.splits)
next
  case (3 E sourcePath item templateContent items targetPath d w)
  then show ?case
    by (auto simp: Let_def split: sum.splits prod.splits)
qed


lemma copyDirectoryRecursive_templateTree:
  "copyDirectoryRecursive (E\<lparr>templateTree := t\<rparr>) sourcePath items targetPath d w
     = copyDirectoryRecursive E sourcePath items targetPath d w"
  by (induction E sourcePath items targetPath d w rule: copyDirectoryRecursive.induct)
     (auto simp: Let_def split: sum.splits prod.splits)

text \<open>
  C5. Whatever the source tree and the configuration, the recursive copy and
  \<open>copyDirectory\<close> give the same result, the same files in the target and the same
  ledger, as on the source tree without the entries the skip predicate excludes: an
  excluded file produces no output and is not tracked. Below a source path containing
  \<open>base\<close>, the compose template of a database other than the configured one is excluded,
  and copying it alone changes nothing.
\<close>

theorem copyDirectory_never_copies_skipped:
  "copyDirectoryRecursive E sourcePath (withoutSkipped sourcePath d items) targetPath d w
     = copyDirectoryRecursive E sourcePath items targetPath d w
   \<and> copyDirectory (E\<lparr>templateTree := (\<lambda>p. withoutSkipped p d (templateTree E p))\<rparr>)
         sourceDir targetPath d w
     = copyDirectory E sourceDir targetPath d w
   \<and> (includesStr sourcePath ''base'' \<and> db \<noteq> database d
        \<longrightarrow> shouldSkipFile (''docker-compose.'' @ databaseStr db @ ''.yml.ejs'') sourcePath d
            \<and> copyDirectoryRecursive E sourcePath
                  [(''docker-compose.'' @ databaseStr db @ ''.yml.ejs'', TFile c)] targetPath d w
                = (w, Inr ()))"
proof -
  have rec: "copyDirectoryRecursive E sourcePath (withoutSkipped sourcePath d items) targetPath d w
     = copyDirectoryRecursive E sourcePath items targetPath d w"
    by (rule copy_skips)
  have top: "copyDirectory (E\<lparr>templateTree := (\<lambda>p. withoutSkipped p d (templateTree E p))\<rparr>)
         sourceDir targetPath d w
     = copyDirectory E sourceDir targetPath d w"
    by (simp add: copyDirectory_def Let_def copyDirectoryRecursive_templateTree copy_skips)
  have ex: "includesStr sourcePath ''base'' \<and> db \<noteq> database d
        \<longrightarrow> shouldSkipFile (''docker-compose.'' @ databaseStr db @ ''.yml.ejs'') sourcePath d
            \<and> copyDirectoryRecursive E sourcePath
                  [(''docker-compose.'' @ databaseStr db @ ''.yml.ejs'', TFile c)] targetPath d w
                = (w, Inr ())"
  proof (rule impI)
    assume a: "includesStr sourcePath ''base'' \<and> db \<noteq> database d"
    then have "includesStr sourcePath ''base''" and "db \<noteq> database d"
      by (rule conjunct1, rule conjunct2)
    then have "shouldSkipFile (''docker-compose.'' @ databaseStr db @ ''.yml.ejs'') sourcePath d"
      by (rule shouldSkipFile_other_database)
    then show "shouldSkipFile (''docker-compose.'' @ databaseStr db @ ''.yml.ejs'') sourcePath d
            \<and> copyDirectoryRecursive E sourcePath
                  [(''docker-compose.'' @ databaseStr db @ ''.yml.ejs'', TFile c)] targetPath d w
                = (w, Inr ())"
      by simp
  qed
  from rec top ex show ?thesis by (intro conjI)
qed

theorem copyDirectory_never_copies_skipped_witness:
  "includesStr ''/w/templates/base'' ''base'' \<and> mysql \<noteq> database exData
   \<and> shouldSkipFile ''docker-compose.mysql.yml.ejs'' ''/w/templates/base'' exData
   \<and> withoutSkipped ''/w/templates/base'' exData exTree
       = [(''docker-compose.postgres.yml.ejs'', TFile ''postgres for ''),
          (''src'', TDir [(''main.ts.ejs'', TFile ''main of '')]),
          (''LICENSE'', TFile ''MIT'')]
   \<and> copyDirectoryRecursive exEnv ''/w/templates/base'' exTree ''/out'' exData outWorld
       = copyDirectoryRecursive exEnv ''/w/templates/base''
           [(''docker-compose.postgres.yml.ejs'', TFile ''postgres for ''),
            (''src'', TDir [(''main.ts.ejs'', TFile ''main of '')]),
            (''LICENSE'', TFile ''MIT'')] ''/out'' exData outWorld
   \<and> files (fst (copyDirectoryRecursive exEnv ''/w/templates/base'' exTree ''/out'' exData outWorld))
       = [(''/out'', Dir),
          (''/out/docker-compose.postgres.yml'', File ''postgres for sample-api''),
          (''/out/src'', Dir),
          (''/out/src/main.ts'', File ''main of sample-api''),
          (''/out/LICENSE'', File ''MIT'')]
   \<and> map createdFiles
         (rollbackStack (fst (copyDirectoryRecursive exEnv ''/w/templates/base'' exTree ''/out''
                                exData outWorld)))
       = [[''/out/docker-compose.postgres.yml'', ''/out/src/main.ts'', ''/out/LICENSE'']]"
proof -
  have h: "includesStr ''/w/templates/base'' ''base'' \<and> mysql \<noteq> database exData"
    by (simp add: exData_def)
  have ws: "withoutSkipped ''/w/templates/base'' exData exTree
       = [(''docker-compose.postgres.yml.ejs'', TFile ''postgres for ''),
          (''src'', TDir [(''main.ts.ejs'', TFile ''main of '')]),
          (''LICENSE'', TFile ''MIT'')]"
    by code_simp
  note th = copyDirectory_never_copies_skipped
    [where E = exEnv and sourcePath = "''/w/templates/base''" and d = exData and items = exTree
       and targetPath = "''/out''" and w = outWorld and db = mysql]
  from th have eq: "copyDirectoryRecursive exEnv ''/w/templates/base''
           (withoutSkipped ''/w/templates/base'' exData exTree) ''/out'' exData outWorld
       = copyDirectoryRecursive exEnv ''/w/templates/base'' exTree ''/out'' exData outWorld"
    by (rule conjunct1)
  from th h have sk: "shouldSkipFile ''docker-compose.mysql.yml.ejs'' ''/w/templates/base'' exData"
    by simp
  have fs: "files (fst (copyDirectoryRecursive exEnv ''/w/templates/base'' exTree ''/out'' exData outWorld))
       = [(''/out'', Dir),
          (''/out/docker-compose.postgres.yml'', File ''postgres for sample-api''),
          (''/out/src'', Dir),
          (''/out/src/main.ts'', File ''main of sample-api''),
          (''/out/LICENSE'', File ''MIT'')]"
    by code_simp
  have tr: "map createdFiles
         (rollbackStack (fst (copyDirectoryRecursive exEnv ''/w/templates/base'' exTree ''/out''
                                exData outWorld)))
       = [[''/out/docker-compose.postgres.yml'', ''/out/src/main.ts'', ''/out/LICENSE'']]"
    by code_simp
  from h sk ws eq [unfolded ws, symmetric] fs tr show ?thesis by (intro conjI) (elim conjE, assumption)+
qed

section \<open>Properties of the manifest merge\<close>

























section \<open>Properties of the project generation\<close>





























end
